theory Spec2Isabelle
  imports Main
begin

section \<open>Survey question validation: choice counts and date ranges\<close>

text \<open>
  The development embeds \<^verbatim>\<open>survey_condition_validation_option/models/survey_question.py\<close>:
  the computed flag \<^verbatim>\<open>_compute_validation_required\<close> and the two validation hooks
  \<^verbatim>\<open>_validate_choice\<close> and \<^verbatim>\<open>_validate_date\<close> of the class \<^verbatim>\<open>SurveyQuestion\<close>.

  What the module imports is kept outside the functions under study:
  \<^item> the translation function \<^verbatim>\<open>_\<close> is kept symbolic: a call \<^verbatim>\<open>_(template, **kwargs)\<close> is the
    value \<open>Translated template kwargs\<close>;
  \<^item> \<^verbatim>\<open>fields.Date.from_string\<close> and \<^verbatim>\<open>fields.Datetime.from_string\<close> on the submitted
    answer, the time zone database \<^verbatim>\<open>pytz.timezone\<close> and the clock are fields of the
    environment record;
  \<^item> calendar values are counted on Python's own scale: a \<^verbatim>\<open>date\<close> is its proleptic
    Gregorian ordinal (\<^verbatim>\<open>date.toordinal()\<close>, 0001-01-01 is day 1), a naive \<^verbatim>\<open>datetime\<close>
    is \<open>86400 * ordinal + seconds since midnight\<close>. Comparison and the arithmetic of
    \<^verbatim>\<open>relativedelta(days=..)\<close>, \<^verbatim>\<open>relativedelta(hours=..)\<close> and
    \<^verbatim>\<open>relativedelta(seconds=..)\<close> are then comparison and addition of integers. The end
    of Python's calendar (years 1 and 9999) is not modelled.
\<close>

subsection \<open>Python values\<close>

datatype error = ValueError | TypeError

text \<open>A keyword argument handed to \<^verbatim>\<open>_\<close>: an integer, a \<^verbatim>\<open>date\<close> or a string.\<close>

datatype arg = IntArg int | DateArg int | StrArg string

text \<open>
  An error text: either the question's own \<^verbatim>\<open>validation_error_msg\<close>, or the result of the
  translation call with its template and keyword arguments.
\<close>

datatype message = Literal string | Translated string "(string \<times> arg) list"

text \<open>
  The dictionary the hooks return, as its list of items. Every dictionary built here is
  \<^verbatim>\<open>{}\<close> or \<^verbatim>\<open>{self.id: text}\<close>; a dictionary is true in a condition when it has an item.
\<close>

type_synonym pydict = "(int \<times> message) list"

text \<open>
  A character or selection field holds \<^verbatim>\<open>False\<close> (here \<open>None\<close>) or a string; it is true in
  a condition when it is a string other than the empty one.
\<close>

definition truthy :: "string option \<Rightarrow> bool" where
  "truthy v = (case v of None \<Rightarrow> False | Some s \<Rightarrow> s \<noteq> [])"

text \<open>\<^verbatim>\<open>self.validation_error_msg or _(...)\<close>.\<close>

definition msg_or :: "string option \<Rightarrow> message \<Rightarrow> message" where
  "msg_or custom generated =
     (case custom of
        None \<Rightarrow> generated
      | Some s \<Rightarrow> if s \<noteq> [] then Literal s else generated)"

subsection \<open>The question record\<close>

record question =
  question_id :: int
  question_type :: string
  validation_required :: bool
  validation_error_msg :: "string option"
  suggested_answer_ids :: "int list"
  validation_min_multiple_choice_option :: int
  validation_max_multiple_choice_option :: int
  validation_min_datetime_option :: "string option"
  validation_max_datetime_option :: "string option"
  validation_min_date_option :: "string option"
  validation_max_date_option :: "string option"
  validation_min_datetime :: "int option"
  validation_max_datetime :: "int option"
  validation_min_date :: "int option"
  validation_max_date :: "int option"

subsection \<open>The computed flag\<close>

definition supported_types :: "string list" where
  "supported_types =
     [''char_box'', ''numerical_box'', ''date'', ''datetime'', ''multiple_choice'']"

text \<open>The body of the loop of \<^verbatim>\<open>_compute_validation_required\<close>, for one question.\<close>

definition compute_validation_required1 :: "question \<Rightarrow> question" where
  "compute_validation_required1 q =
     (if \<not> validation_required q \<or> question_type q \<notin> set supported_types
      then q\<lparr>validation_required := False\<rparr>
      else q)"

text \<open>\<^verbatim>\<open>for question in self\<close>: the record set is the list of its questions.\<close>

primrec compute_validation_required :: "question list \<Rightarrow> question list" where
  "compute_validation_required [] = []"
| "compute_validation_required (q # qs) =
     compute_validation_required1 q # compute_validation_required qs"

subsection \<open>Choice counts\<close>

text \<open>
  The answer of a multiple choice question arrives as a list of suggested answer
  identifiers, or as a string when a single one was selected.
\<close>

datatype answer = AnswerList "int list" | AnswerStr string

text \<open>
  \<^verbatim>\<open>_validate_choice\<close>. The first argument is what \<^verbatim>\<open>super()._validate_choice(answer, comment)\<close>
  returned; the comment is read by that call only.
\<close>

definition validate_choice :: "pydict \<Rightarrow> question \<Rightarrow> answer \<Rightarrow> pydict" where
  "validate_choice res q answer =
     (if res \<noteq> [] \<or> question_type q \<noteq> ''multiple_choice'' \<or> \<not> validation_required q
      then res
      else
        let answer_count = (case answer of AnswerList xs \<Rightarrow> int (length xs) | AnswerStr s \<Rightarrow> 1);
            min_value =
              (if validation_min_multiple_choice_option q = - 1 then 0
               else validation_min_multiple_choice_option q);
            max_value =
              (if validation_max_multiple_choice_option q = - 1
               then int (length (suggested_answer_ids q))
               else validation_max_multiple_choice_option q)
        in
          if \<not> (min_value \<le> answer_count \<and> answer_count \<le> max_value) then
            (if min_value = max_value then
               [(question_id q,
                 msg_or (validation_error_msg q)
                   (Translated
                     ''You need to select %(min_value)s answer, you chose %(len_answer)s answer.''
                     [(''min_value'', IntArg min_value), (''len_answer'', IntArg answer_count)]))]
             else
               [(question_id q,
                 msg_or (validation_error_msg q)
                   (Translated
                     ''You need to select between %(min_value)s and %(max_value)s answers, you chose %(len_answer)s answer.''
                     [(''min_value'', IntArg min_value), (''max_value'', IntArg max_value),
                      (''len_answer'', IntArg answer_count)]))])
          else [])"

subsection \<open>Calendar values and their display\<close>

text \<open>
  \<^verbatim>\<open>fields.datetime(today.year, today.month, today.day, hour)\<close>, where \<open>today\<close> is a date: the
  class is \<^verbatim>\<open>datetime.datetime\<close>, whose constructor raises \<^verbatim>\<open>ValueError\<close> unless
  \<^verbatim>\<open>0 <= hour <= 23\<close>. Minute and second keep their default 0.
\<close>

definition fields_datetime :: "int \<Rightarrow> int \<Rightarrow> error + int" where
  "fields_datetime today hour =
     (if 0 \<le> hour \<and> hour \<le> 23 then Inr (86400 * today + 3600 * hour) else Inl ValueError)"

text \<open>
  \<^verbatim>\<open>int(x / 3600)\<close> for a whole number of seconds \<open>x\<close>: the quotient, rounded towards
  zero.
\<close>

definition int_hours :: "int \<Rightarrow> int" where
  "int_hours x = (if 0 \<le> x then x div 3600 else - ((- x) div 3600))"

text \<open>
  A time zone gives, for an instant in UTC, the offset from UTC in seconds that is in
  force at that instant (\<^verbatim>\<open>tzinfo.fromutc\<close>).
\<close>

type_synonym tzinfo = "int \<Rightarrow> int"

text \<open>
  \<^verbatim>\<open>d.astimezone(user_timezone)\<close> for a naive \<open>d\<close>: Python reads a naive value in the
  zone of the process, which the host framework sets to UTC; the result carries the wall
  clock of the target zone.
\<close>

definition astimezone :: "tzinfo \<Rightarrow> int \<Rightarrow> int" where
  "astimezone tz d = d + tz d"

text \<open>The calendar date of an ordinal, after \<^verbatim>\<open>datetime._ord2ymd\<close>.\<close>

definition DAYS_IN_MONTH :: "int list" where
  "DAYS_IN_MONTH = [- 1, 31, 28, 31, 30, 31, 30, 31, 31, 30, 31, 30, 31]"

definition DAYS_BEFORE_MONTH :: "int list" where
  "DAYS_BEFORE_MONTH = [- 1, 0, 31, 59, 90, 120, 151, 181, 212, 243, 273, 304, 334]"

definition ord2ymd :: "int \<Rightarrow> int \<times> int \<times> int" where
  "ord2ymd ordinal =
     (let n = ordinal - 1;
          n400 = n div 146097; n = n mod 146097;
          n100 = n div 36524; n = n mod 36524;
          n4 = n div 1461; n = n mod 1461;
          n1 = n div 365; n = n mod 365;
          year = n400 * 400 + 1 + n100 * 100 + n4 * 4 + n1
      in
        if n1 = 4 \<or> n100 = 4 then (year - 1, 12, 31)
        else
          let leapyear = (n1 = 3 \<and> (n4 \<noteq> 24 \<or> n100 = 3));
              month = (n + 50) div 32;
              preceding =
                DAYS_BEFORE_MONTH ! nat month + (if month > 2 \<and> leapyear then 1 else 0)
          in
            if preceding > n then
              (year, month - 1,
               n - (preceding -
                     (DAYS_IN_MONTH ! nat (month - 1) +
                      (if month - 1 = 2 \<and> leapyear then 1 else 0))) + 1)
            else (year, month, n - preceding + 1))"

definition digit :: "int \<Rightarrow> char" where
  "digit n = ''0123456789'' ! nat (n mod 10)"

definition pad2 :: "int \<Rightarrow> string" where
  "pad2 n = [digit (n div 10), digit n]"

definition pad4 :: "int \<Rightarrow> string" where
  "pad4 n = [digit (n div 1000), digit (n div 100), digit (n div 10), digit n]"

text \<open>\<^verbatim>\<open>d.strftime("%Y-%m-%d %H:%M:%S")\<close>, for a year of four digits.\<close>

definition strftime :: "int \<Rightarrow> string" where
  "strftime d =
     (let (year, month, day) = ord2ymd (d div 86400);
          s = d mod 86400
      in pad4 year @ ''-'' @ pad2 month @ ''-'' @ pad2 day @ '' '' @
         pad2 (s div 3600) @ '':'' @ pad2 (s mod 3600 div 60) @ '':'' @ pad2 (s mod 60))"

subsection \<open>The environment\<close>

text \<open>
  \<open>user_tz\<close> is \<^verbatim>\<open>self.env.user.tz\<close> (\<open>None\<close> for \<^verbatim>\<open>False\<close>), \<open>timezone\<close> is
  \<^verbatim>\<open>pytz.timezone\<close>, \<open>utcnow\<close> is the instant of the call on the UTC wall clock. The two
  parsers are \<^verbatim>\<open>fields.Date.from_string\<close> and \<^verbatim>\<open>fields.Datetime.from_string\<close> on a
  string: they raise (\<open>Inl\<close>), return \<^verbatim>\<open>None\<close> for an empty value, or return the parsed
  value.
\<close>

record env =
  user_tz :: "string option"
  timezone :: "string \<Rightarrow> tzinfo"
  utcnow :: int
  Date_from_string :: "string \<Rightarrow> error + int option"
  Datetime_from_string :: "string \<Rightarrow> error + int option"

subsection \<open>Date ranges\<close>

text \<open>The line \<^verbatim>\<open>_logger.error(f"Missing information about {field}: {value}")\<close>.\<close>

definition missing_information :: "string \<Rightarrow> string option \<Rightarrow> string" where
  "missing_information field v =
     ''Missing information about '' @ field @ '': '' @
     (case v of None \<Rightarrow> ''False'' | Some s \<Rightarrow> s)"

text \<open>
  Lines 146 to 177, the bounds of a datetime question: the lines logged, and either the
  exception raised or \<open>(min_date, max_date, nb_second_delay)\<close>. A bound is \<open>None\<close> when it
  is \<^verbatim>\<open>False\<close> or \<^verbatim>\<open>None\<close> in the source. \<^verbatim>\<open>fields.Datetime.from_string\<close> of a stored field
  returns the stored value, or \<^verbatim>\<open>None\<close> for an unset field.
\<close>

definition datetime_bounds ::
  "question \<Rightarrow> int \<Rightarrow> int \<Rightarrow> string list \<times> (error + int option \<times> int option \<times> int)" where
  "datetime_bounds q date_now diff_hour =
     (let (log_min, min_date) =
            (if truthy (validation_min_datetime_option q) then
               (if validation_min_datetime_option q = Some ''today'' then
                  ([], Some (86400 * date_now - 3600 * diff_hour))
                else
                  ([missing_information ''validation_min_datetime_option''
                      (validation_min_datetime_option q)], None))
             else ([], validation_min_datetime q))
      in
        if truthy (validation_max_datetime_option q) then
          (if validation_max_datetime_option q = Some ''today'' then
             (case fields_datetime (date_now + 1) (- diff_hour) of
                Inl err \<Rightarrow> (log_min, Inl err)
              | Inr d \<Rightarrow> (log_min, Inr (min_date, Some (d - 1), 1)))
           else
             (log_min @
                [missing_information ''validation_max_datetime_option''
                   (validation_max_datetime_option q)],
              Inr (min_date, None, 0)))
        else (log_min, Inr (min_date, validation_max_datetime q, 0)))"

text \<open>Lines 179 to 201, the bounds of every other question.\<close>

definition date_bounds ::
  "question \<Rightarrow> int \<Rightarrow> string list \<times> (error + int option \<times> int option \<times> int)" where
  "date_bounds q date_now =
     (let (log_min, min_date) =
            (if truthy (validation_min_date_option q) then
               (if validation_min_date_option q = Some ''today'' then ([], Some date_now)
                else
                  ([missing_information ''validation_min_date_option''
                      (validation_min_date_option q)], None))
             else ([], validation_min_date q));
          (log_max, max_date) =
            (if truthy (validation_max_date_option q) then
               (if validation_max_date_option q = Some ''today'' then ([], Some date_now)
                else
                  ([missing_information ''validation_max_date_option''
                      (validation_max_date_option q)], None))
             else ([], validation_max_date q))
      in (log_min @ log_max, Inr (min_date, max_date, 0)))"

text \<open>What the message shows for a bound.\<close>

definition date_min_show :: "bool \<Rightarrow> tzinfo \<Rightarrow> int \<Rightarrow> arg" where
  "date_min_show is_datetime user_timezone min_date =
     (if \<not> is_datetime then DateArg (min_date - 1)
      else StrArg (strftime (astimezone user_timezone min_date)))"

definition date_max_show :: "bool \<Rightarrow> tzinfo \<Rightarrow> int \<Rightarrow> int \<Rightarrow> arg" where
  "date_max_show is_datetime user_timezone max_date seconds =
     (if \<not> is_datetime then DateArg (max_date + 1)
      else StrArg (strftime (astimezone user_timezone (max_date + seconds))))"

text \<open>
  Lines 203 to 247, the comparison and the message. Comparing a date with \<^verbatim>\<open>None\<close> raises
  \<^verbatim>\<open>TypeError\<close>; the conditions are evaluated from left to right, so that happens as soon
  as a bound is present.
\<close>

definition check_range ::
  "question \<Rightarrow> tzinfo \<Rightarrow> bool \<Rightarrow> int \<Rightarrow> int option \<Rightarrow> int option \<Rightarrow> int option
     \<Rightarrow> error + pydict" where
  "check_range q user_timezone is_datetime nb_second_delay min_date max_date dateanswer =
     (case dateanswer of
        None \<Rightarrow> if min_date \<noteq> None \<or> max_date \<noteq> None then Inl TypeError else Inr []
      | Some a \<Rightarrow>
          if min_date \<noteq> None \<and> max_date \<noteq> None \<and>
             \<not> (the min_date \<le> a \<and> a \<le> the max_date)
          then
            Inr [(question_id q,
                  msg_or (validation_error_msg q)
                    (Translated
                      ''The date needs to be between %(date_min_show)s and %(date_max_show)s.''
                      [(''date_min_show'',
                        date_min_show is_datetime user_timezone (the min_date)),
                       (''date_max_show'',
                        date_max_show is_datetime user_timezone (the max_date)
                          nb_second_delay)]))]
          else if min_date \<noteq> None \<and> \<not> the min_date \<le> a then
            Inr [(question_id q,
                  msg_or (validation_error_msg q)
                    (Translated ''The date needs to be after %(date_min_show)s.''
                      [(''date_min_show'',
                        date_min_show is_datetime user_timezone (the min_date))]))]
          else if max_date \<noteq> None \<and> \<not> a \<le> the max_date then
            Inr [(question_id q,
                  msg_or (validation_error_msg q)
                    (Translated ''The date needs to be before %(date_max_show)s.''
                      [(''date_max_show'',
                        date_max_show is_datetime user_timezone (the max_date) 1)]))]
          else Inr [])"

text \<open>
  Lines 124 to 131: the answer is parsed as a datetime for a datetime question and as a
  date for every other question.
\<close>

definition parse_answer :: "env \<Rightarrow> question \<Rightarrow> string \<Rightarrow> error + int option" where
  "parse_answer e q answer =
     (if question_type q = ''datetime'' then Datetime_from_string e answer
      else Date_from_string e answer)"

text \<open>
  Lines 137 to 141: \<^verbatim>\<open>timezone(self.env.user.tz or "UTC")\<close>, the offset of
  \<^verbatim>\<open>datetime.now(user_timezone)\<close>, its calendar date on the wall clock of the zone, and
  the offset in whole hours.
\<close>

definition user_timezone :: "env \<Rightarrow> tzinfo" where
  "user_timezone e = timezone e (if truthy (user_tz e) then the (user_tz e) else ''UTC'')"

definition utcoffset :: "env \<Rightarrow> int" where
  "utcoffset e = user_timezone e (utcnow e)"

definition date_now :: "env \<Rightarrow> int" where
  "date_now e = (utcnow e + utcoffset e) div 86400"

definition diff_hour :: "env \<Rightarrow> int" where
  "diff_hour e = int_hours (utcoffset e)"

text \<open>Lines 145 to 201: the branch on \<^verbatim>\<open>is_datetime\<close>.\<close>

definition bounds ::
  "env \<Rightarrow> question \<Rightarrow> string list \<times> (error + int option \<times> int option \<times> int)" where
  "bounds e q =
     (if question_type q = ''datetime'' then datetime_bounds q (date_now e) (diff_hour e)
      else date_bounds q (date_now e))"

text \<open>
  \<^verbatim>\<open>_validate_date\<close>: the lines logged and the dictionary returned, or the exception that
  leaves the function. Only \<^verbatim>\<open>ValueError\<close> is caught around the parser.
\<close>

definition validate_date :: "env \<Rightarrow> question \<Rightarrow> string \<Rightarrow> string list \<times> (error + pydict)" where
  "validate_date e q answer =
     (case parse_answer e q answer of
        Inl ValueError \<Rightarrow> ([], Inr [(question_id q, Translated ''This is not a date'' [])])
      | Inl TypeError \<Rightarrow> ([], Inl TypeError)
      | Inr dateanswer \<Rightarrow>
          if \<not> validation_required q then ([], Inr [])
          else
            (case bounds e q of
               (log, Inl err) \<Rightarrow> (log, Inl err)
             | (log, Inr (min_date, max_date, nb_second_delay)) \<Rightarrow>
                 (log,
                  check_range q (user_timezone e) (question_type q = ''datetime'')
                    nb_second_delay min_date max_date dateanswer)))"

subsection \<open>A concrete environment\<close>

text \<open>
  The theorems below hold for every environment. Where one is evaluated, the environment
  is this one: three zones of the tz database with a fixed offset (\<^verbatim>\<open>Etc/GMT-1\<close> is one
  hour east of Greenwich, \<^verbatim>\<open>Etc/GMT+5\<close> five hours west), and parsers for the canonical
  forms \<^verbatim>\<open>YYYY-MM-DD\<close> and \<^verbatim>\<open>YYYY-MM-DD HH:MM:SS\<close> of a valid calendar date, with
  \<^verbatim>\<open>datetime._ymd2ord\<close> for the ordinal. The framework's parsers accept more strings than
  these; the evaluations below only use strings in canonical form and the string
  \<^verbatim>\<open>not-a-date\<close>, on which both agree.
\<close>

definition fixed_timezone :: "string \<Rightarrow> tzinfo" where
  "fixed_timezone name =
     (\<lambda>utc. if name = ''Etc/GMT-1'' then 3600
            else if name = ''Etc/GMT+5'' then - 18000
            else 0)"

definition is_leap :: "int \<Rightarrow> bool" where
  "is_leap year = (year mod 4 = 0 \<and> (year mod 100 \<noteq> 0 \<or> year mod 400 = 0))"

definition days_in_month :: "int \<Rightarrow> int \<Rightarrow> int" where
  "days_in_month year month =
     (if month = 2 \<and> is_leap year then 29 else DAYS_IN_MONTH ! nat month)"

definition ymd2ord :: "int \<Rightarrow> int \<Rightarrow> int \<Rightarrow> int" where
  "ymd2ord year month day =
     (let y = year - 1 in y * 365 + y div 4 - y div 100 + y div 400) +
     (DAYS_BEFORE_MONTH ! nat month + (if month > 2 \<and> is_leap year then 1 else 0)) +
     day"

definition digit_of :: "char \<Rightarrow> int option" where
  "digit_of c =
     (let n = (of_char c :: int) in if 48 \<le> n \<and> n \<le> 57 then Some (n - 48) else None)"

primrec number :: "string \<Rightarrow> int \<Rightarrow> int option" where
  "number [] acc = Some acc"
| "number (c # cs) acc =
     (case digit_of c of None \<Rightarrow> None | Some d \<Rightarrow> number cs (10 * acc + d))"

definition canonical_date :: "string \<Rightarrow> error + int option" where
  "canonical_date s =
     (if s = [] then Inr None
      else if length s = 10 \<and> s ! 4 = CHR ''-'' \<and> s ! 7 = CHR ''-'' then
        (case (number (take 4 s) 0, number (take 2 (drop 5 s)) 0, number (drop 8 s) 0) of
           (Some y, Some m, Some d) \<Rightarrow>
             if 1 \<le> y \<and> 1 \<le> m \<and> m \<le> 12 \<and> 1 \<le> d \<and> d \<le> days_in_month y m
             then Inr (Some (ymd2ord y m d))
             else Inl ValueError
         | _ \<Rightarrow> Inl ValueError)
      else Inl ValueError)"

definition canonical_datetime :: "string \<Rightarrow> error + int option" where
  "canonical_datetime s =
     (if s = [] then Inr None
      else if length s = 19 \<and> s ! 10 = CHR '' '' \<and> s ! 13 = CHR '':'' \<and> s ! 16 = CHR '':'' then
        (case (canonical_date (take 10 s), number (take 2 (drop 11 s)) 0,
               number (take 2 (drop 14 s)) 0, number (drop 17 s) 0) of
           (Inr (Some day), Some h, Some m, Some sec) \<Rightarrow>
             if h \<le> 23 \<and> m \<le> 59 \<and> sec \<le> 59
             then Inr (Some (86400 * day + 3600 * h + 60 * m + sec))
             else Inl ValueError
         | _ \<Rightarrow> Inl ValueError)
      else Inl ValueError)"

text \<open>The environment of a user in the zone \<open>tz\<close>, at the instant \<open>now\<close> of the UTC clock.\<close>

definition user_env :: "string option \<Rightarrow> int \<Rightarrow> env" where
  "user_env tz now =
     \<lparr>user_tz = tz, timezone = fixed_timezone, utcnow = now,
      Date_from_string = canonical_date, Datetime_from_string = canonical_datetime\<rparr>"

text \<open>
  A question with the defaults of the fields the module declares: -1 for the two choice
  counts, nothing selected and no bound stored.
\<close>

definition new_question :: "int \<Rightarrow> string \<Rightarrow> question" where
  "new_question i kind =
     \<lparr>question_id = i, question_type = kind, validation_required = True,
      validation_error_msg = None, suggested_answer_ids = [],
      validation_min_multiple_choice_option = - 1,
      validation_max_multiple_choice_option = - 1,
      validation_min_datetime_option = None, validation_max_datetime_option = None,
      validation_min_date_option = None, validation_max_date_option = None,
      validation_min_datetime = None, validation_max_datetime = None,
      validation_min_date = None, validation_max_date = None\<rparr>"

subsection \<open>The quantities the specification names\<close>

text \<open>
  The count of an answer, in the specification's words: the length of a sequence, and 1
  for a single scalar.
\<close>

definition spec_count :: "answer \<Rightarrow> int" where
  "spec_count answer = (case answer of AnswerList xs \<Rightarrow> int (length xs) | AnswerStr s \<Rightarrow> 1)"

text \<open>
  The effective bounds, in the specification's words: the configured value if it is at
  least 0, and otherwise 0 for the minimum and the number of offered choices for the
  maximum.
\<close>

definition spec_effective_min :: "question \<Rightarrow> int" where
  "spec_effective_min q =
     (if validation_min_multiple_choice_option q \<ge> 0
      then validation_min_multiple_choice_option q
      else 0)"

definition spec_effective_max :: "question \<Rightarrow> int" where
  "spec_effective_max q =
     (if validation_max_multiple_choice_option q \<ge> 0
      then validation_max_multiple_choice_option q
      else int (length (suggested_answer_ids q)))"

text \<open>
  The maximum with -1 as the only value that disables it, as the help text of the field
  says.
\<close>

definition sentinel_effective_max :: "question \<Rightarrow> int" where
  "sentinel_effective_max q =
     (if validation_max_multiple_choice_option q = - 1
      then int (length (suggested_answer_ids q))
      else validation_max_multiple_choice_option q)"

section \<open>Properties\<close>

subsection \<open>Choice counts\<close>

lemma spec_count_nonneg: "0 \<le> spec_count a"
  by (cases a) (simp_all add: spec_count_def)

text \<open>
  C1, as the code has it. For a multiple choice question with validation enabled and no
  failure of the generic check, \<open>validate_choice\<close> returns the empty dictionary exactly when
  the count lies between the effective minimum and the effective maximum, both included.
  The count is the length of a list answer and 1 for a string; the effective minimum is
  the configured one if it is at least 0 and otherwise 0; the effective maximum is the
  number of suggested answers if the configured maximum is -1, and the configured maximum
  otherwise.
\<close>

theorem validate_choice_valid_iff:
  assumes "question_type q = ''multiple_choice''" and "validation_required q"
  shows "validate_choice [] q a = [] \<longleftrightarrow>
           spec_effective_min q \<le> spec_count a \<and> spec_count a \<le> sentinel_effective_max q"
proof -
  have n: "0 \<le> spec_count a" by (rule spec_count_nonneg)
  show ?thesis
    using assms n
    by (auto simp add: validate_choice_def Let_def spec_count_def spec_effective_min_def
        sentinel_effective_max_def split: answer.splits)
qed

theorem validate_choice_valid_iff_witness:
  "validate_choice []
     ((new_question 3 ''multiple_choice'')
        \<lparr>suggested_answer_ids := [11, 12, 13], validation_min_multiple_choice_option := 1,
         validation_max_multiple_choice_option := 2\<rparr>) (AnswerList [11, 13]) = [] \<and>
   validate_choice []
     ((new_question 3 ''multiple_choice'')
        \<lparr>suggested_answer_ids := [11, 12, 13], validation_min_multiple_choice_option := 1,
         validation_max_multiple_choice_option := 2\<rparr>) (AnswerList []) \<noteq> []"
  using
    validate_choice_valid_iff [of "(new_question 3 ''multiple_choice'')
        \<lparr>suggested_answer_ids := [11, 12, 13], validation_min_multiple_choice_option := 1,
         validation_max_multiple_choice_option := 2\<rparr>" "AnswerList [11, 13]"]
    validate_choice_valid_iff [of "(new_question 3 ''multiple_choice'')
        \<lparr>suggested_answer_ids := [11, 12, 13], validation_min_multiple_choice_option := 1,
         validation_max_multiple_choice_option := 2\<rparr>" "AnswerList []"]
  by (simp add: new_question_def spec_count_def spec_effective_min_def
      sentinel_effective_max_def)

text \<open>
  C1, as the specification words it, fails: with a configured maximum of -2 and three
  suggested answers, the specification's effective maximum is 3 and one selected answer
  would be valid, while the code compares the count with -2 and rejects it.
\<close>

theorem validate_choice_negative_max_counterexample:
  "\<not> (validate_choice []
         ((new_question 3 ''multiple_choice'')
            \<lparr>suggested_answer_ids := [11, 12, 13],
             validation_max_multiple_choice_option := - 2\<rparr>)
         (AnswerList [11]) = [] \<longleftrightarrow>
       spec_effective_min
         ((new_question 3 ''multiple_choice'')
            \<lparr>suggested_answer_ids := [11, 12, 13],
             validation_max_multiple_choice_option := - 2\<rparr>)
         \<le> spec_count (AnswerList [11]) \<and>
       spec_count (AnswerList [11]) \<le>
         spec_effective_max
           ((new_question 3 ''multiple_choice'')
              \<lparr>suggested_answer_ids := [11, 12, 13],
               validation_max_multiple_choice_option := - 2\<rparr>))"
  by (simp add: validate_choice_def new_question_def spec_count_def spec_effective_min_def
      spec_effective_max_def msg_or_def)

subsection \<open>The computed flag\<close>

text \<open>
  C9. \<open>compute_validation_required\<close> leaves the kind of every question as it is, and
  afterwards the flag of a question is set exactly when it was set before and the kind is
  one of \<^verbatim>\<open>char_box\<close>, \<^verbatim>\<open>numerical_box\<close>, \<^verbatim>\<open>date\<close>, \<^verbatim>\<open>datetime\<close> and \<^verbatim>\<open>multiple_choice\<close>: for
  every other kind it is \<open>False\<close>.
\<close>

theorem compute_validation_required_flag:
  "map question_type (compute_validation_required qs) = map question_type qs \<and>
   map validation_required (compute_validation_required qs) =
     map (\<lambda>q. validation_required q \<and>
               question_type q \<in>
                 {''char_box'', ''numerical_box'', ''date'', ''datetime'', ''multiple_choice''})
       qs"
  by (induction qs) (auto simp add: compute_validation_required1_def supported_types_def)

theorem compute_validation_required_flag_witness:
  "map validation_required
     (compute_validation_required
        [new_question 1 ''multiple_choice'', new_question 2 ''simple_choice'',
         (new_question 3 ''date'')\<lparr>validation_required := False\<rparr>]) = [True, False, False]"
  using compute_validation_required_flag
    [of "[new_question 1 ''multiple_choice'', new_question 2 ''simple_choice'',
          (new_question 3 ''date'')\<lparr>validation_required := False\<rparr>]"]
  by (simp add: new_question_def)

subsection \<open>Evaluating the concrete environment\<close>

lemmas env_defs = user_env_def new_question_def parse_answer_def canonical_date_def
  canonical_datetime_def digit_of_def days_in_month_def is_leap_def ymd2ord_def
  DAYS_IN_MONTH_def DAYS_BEFORE_MONTH_def bounds_def date_bounds_def datetime_bounds_def
  date_now_def diff_hour_def utcoffset_def user_timezone_def fixed_timezone_def truthy_def
  int_hours_def fields_datetime_def

lemmas show_defs = check_range_def msg_or_def date_min_show_def date_max_show_def
  astimezone_def strftime_def ord2ymd_def pad2_def pad4_def digit_def Let_def

subsection \<open>Answers that are not dates\<close>

text \<open>
  C4. When the parser of the question's kind raises \<^verbatim>\<open>ValueError\<close> on the answer,
  \<open>validate_date\<close> logs nothing and returns the dictionary that maps the question's
  identifier to the translation of \<^verbatim>\<open>This is not a date\<close>, whether validation is required
  for the question or not.
\<close>

theorem validate_date_not_a_date:
  assumes "parse_answer e q answer = Inl ValueError"
  shows "validate_date e q answer =
           ([], Inr [(question_id q, Translated ''This is not a date'' [])])"
  using assms by (simp add: validate_date_def)

theorem validate_date_not_a_date_witness:
  "validate_date (user_env None 63854136000) (new_question 7 ''date'') ''not-a-date'' =
     ([], Inr [(7, Translated ''This is not a date'' [])]) \<and>
   validate_date (user_env None 63854136000)
     ((new_question 7 ''datetime'')\<lparr>validation_required := False\<rparr>) ''not-a-date'' =
     ([], Inr [(7, Translated ''This is not a date'' [])])"
proof -
  have d: "parse_answer (user_env None 63854136000) (new_question 7 ''date'') ''not-a-date'' =
             Inl ValueError"
    by (simp add: parse_answer_def user_env_def new_question_def canonical_date_def)
  have t: "parse_answer (user_env None 63854136000)
             ((new_question 7 ''datetime'')\<lparr>validation_required := False\<rparr>) ''not-a-date'' =
             Inl ValueError"
    by (simp add: parse_answer_def user_env_def new_question_def canonical_datetime_def)
  show ?thesis
    using validate_date_not_a_date [OF d] validate_date_not_a_date [OF t]
    by (simp add: new_question_def)
qed

subsection \<open>Kinds other than datetime\<close>

text \<open>
  C10. \<open>validate_date\<close> never looks for the kind \<^verbatim>\<open>date\<close>. A question of any kind other
  than \<^verbatim>\<open>datetime\<close> gets what the same question of kind \<^verbatim>\<open>date\<close> gets: its answer goes
  through the date parser and its bounds are the date bounds.
\<close>

theorem validate_date_other_kinds:
  assumes "question_type q \<noteq> ''datetime''"
  shows "validate_date e q answer = validate_date e (q\<lparr>question_type := ''date''\<rparr>) answer \<and>
         parse_answer e q answer = Date_from_string e answer \<and>
         bounds e q = date_bounds q (date_now e)"
proof -
  let ?q = "q\<lparr>question_type := ''date''\<rparr>"
  have p: "parse_answer e ?q answer = parse_answer e q answer"
    using assms by (simp add: parse_answer_def)
  have b: "bounds e ?q = bounds e q"
    using assms by (simp add: bounds_def date_bounds_def)
  have c: "check_range ?q tz (question_type ?q = ''datetime'') nb mn mx d =
           check_range q tz (question_type q = ''datetime'') nb mn mx d" for tz nb mn mx d
    using assms by (cases d) (simp_all add: check_range_def)
  have "validate_date e ?q answer = validate_date e q answer"
    unfolding validate_date_def p b c by (simp split: sum.splits error.splits)
  then show ?thesis
    using assms by (simp add: parse_answer_def bounds_def)
qed

theorem validate_date_other_kinds_witness:
  "validate_date (user_env None 63854136000)
     ((new_question 7 ''char_box'')\<lparr>validation_min_date_option := Some ''today''\<rparr>) ''2024-06-14'' =
   validate_date (user_env None 63854136000)
     ((new_question 7 ''date'')\<lparr>validation_min_date_option := Some ''today''\<rparr>) ''2024-06-14'' \<and>
   validate_date (user_env None 63854136000)
     ((new_question 7 ''char_box'')\<lparr>validation_min_date_option := Some ''today''\<rparr>) ''2024-06-14'' =
   ([], Inr [(7, Translated ''The date needs to be after %(date_min_show)s.''
                   [(''date_min_show'', DateArg 739051)])])"
proof -
  let ?e = "user_env None 63854136000"
  let ?q = "(new_question 7 ''char_box'')\<lparr>validation_min_date_option := Some ''today''\<rparr>"
  have 1: "question_type ?q \<noteq> ''datetime''" by (simp add: new_question_def)
  have 2: "?q\<lparr>question_type := ''date''\<rparr> =
           (new_question 7 ''date'')\<lparr>validation_min_date_option := Some ''today''\<rparr>"
    by (simp add: new_question_def)
  have 3: "validate_date ?e ((new_question 7 ''date'')\<lparr>validation_min_date_option := Some ''today''\<rparr>)
             ''2024-06-14'' =
           ([], Inr [(7, Translated ''The date needs to be after %(date_min_show)s.''
                   [(''date_min_show'', DateArg 739051)])])"
    by (simp add: env_defs validate_date_def check_range_def msg_or_def date_min_show_def)
  from validate_date_other_kinds [OF 1, of ?e "''2024-06-14''"] 2 3 show ?thesis by simp
qed

subsection \<open>The comparison\<close>

text \<open>
  C6. With validation required, an answer parsed to the value \<open>a\<close> and bounds resolved to
  \<open>min_date\<close> and \<open>max_date\<close>, \<open>validate_date\<close> returns a dictionary that is empty or has the
  question's identifier as its one key, and it is not empty exactly when: both bounds are
  present and \<open>a\<close> is below the minimum or above the maximum; only the minimum is present
  and \<open>a\<close> is below it; only the maximum is present and \<open>a\<close> is above it. An answer equal
  to a bound is accepted.
\<close>

theorem validate_date_inclusive:
  assumes "validation_required q"
    and "parse_answer e q answer = Inr (Some a)"
    and "bounds e q = (log, Inr (min_date, max_date, nb))"
  shows "\<exists>r. validate_date e q answer = (log, Inr r) \<and>
           (r = [] \<or> (\<exists>m. r = [(question_id q, m)])) \<and>
           (r \<noteq> [] \<longleftrightarrow>
              (case (min_date, max_date) of
                 (Some lo, Some hi) \<Rightarrow> a < lo \<or> hi < a
               | (Some lo, None) \<Rightarrow> a < lo
               | (None, Some hi) \<Rightarrow> hi < a
               | (None, None) \<Rightarrow> False))"
  using assms
  by (cases min_date; cases max_date) (auto simp add: validate_date_def check_range_def)

theorem validate_date_inclusive_witness:
  "validate_date (user_env None 63854136000)
     ((new_question 7 ''date'')
        \<lparr>validation_min_date_option := Some ''today'', validation_max_date_option := Some ''today''\<rparr>)
     ''2024-06-15'' = ([], Inr [])"
proof -
  let ?e = "user_env None 63854136000"
  let ?q = "(new_question 7 ''date'')
        \<lparr>validation_min_date_option := Some ''today'', validation_max_date_option := Some ''today''\<rparr>"
  have 1: "validation_required ?q" by (simp add: new_question_def)
  have 2: "parse_answer ?e ?q ''2024-06-15'' = Inr (Some 739052)"
    by (simp add: env_defs)
  have 3: "bounds ?e ?q = ([], Inr (Some 739052, Some 739052, 0))"
    by (simp add: env_defs)
  from validate_date_inclusive [OF 1 2 3] show ?thesis by auto
qed

subsection \<open>The question's own error message\<close>

text \<open>
  C8. When the question carries an error message of its own, every non-empty dictionary
  that \<open>validate_choice\<close> returns after a successful generic check, and every non-empty
  dictionary that \<open>validate_date\<close> returns for a parsed answer, maps the question's
  identifier to that message as it stands: no template and no keyword argument is
  involved.
\<close>

theorem custom_message_verbatim:
  assumes "validation_error_msg q = Some m" and "m \<noteq> []"
  shows "(validate_choice [] q a \<noteq> [] \<longrightarrow>
            validate_choice [] q a = [(question_id q, Literal m)]) \<and>
         (\<forall>d r. parse_answer e q answer = Inr d \<and> snd (validate_date e q answer) = Inr r \<and>
                 r \<noteq> [] \<longrightarrow> r = [(question_id q, Literal m)])"
proof (intro conjI allI impI)
  show "validate_choice [] q a = [(question_id q, Literal m)]"
    if "validate_choice [] q a \<noteq> []"
    using that assms by (auto simp add: validate_choice_def Let_def msg_or_def split: if_splits)
next
  fix d r
  assume h: "parse_answer e q answer = Inr d \<and> snd (validate_date e q answer) = Inr r \<and> r \<noteq> []"
  then show "r = [(question_id q, Literal m)]"
    using assms
    by (auto simp add: validate_date_def check_range_def msg_or_def
        split: if_splits prod.splits sum.splits option.splits)
qed

theorem custom_message_verbatim_witness:
  "validate_choice []
     ((new_question 3 ''multiple_choice'')
        \<lparr>validation_error_msg := Some ''Pick one or two'', suggested_answer_ids := [11, 12, 13],
         validation_min_multiple_choice_option := 1,
         validation_max_multiple_choice_option := 2\<rparr>) (AnswerList []) =
     [(3, Literal ''Pick one or two'')] \<and>
   snd (validate_date (user_env None 63854136000)
     ((new_question 7 ''date'')
        \<lparr>validation_error_msg := Some ''Not before today'',
         validation_min_date_option := Some ''today''\<rparr>) ''2024-06-14'') =
     Inr [(7, Literal ''Not before today'')]"
proof -
  let ?c = "(new_question 3 ''multiple_choice'')
        \<lparr>validation_error_msg := Some ''Pick one or two'', suggested_answer_ids := [11, 12, 13],
         validation_min_multiple_choice_option := 1,
         validation_max_multiple_choice_option := 2\<rparr>"
  let ?e = "user_env None 63854136000"
  let ?q = "(new_question 7 ''date'')
        \<lparr>validation_error_msg := Some ''Not before today'',
         validation_min_date_option := Some ''today''\<rparr>"
  have c1: "validation_error_msg ?c = Some ''Pick one or two''" by (simp add: new_question_def)
  have c2: "''Pick one or two'' \<noteq> []" by simp
  have c3: "validate_choice [] ?c (AnswerList []) \<noteq> []"
    by (simp add: validate_choice_def new_question_def)
  have q1: "validation_error_msg ?q = Some ''Not before today''" by (simp add: new_question_def)
  have q2: "''Not before today'' \<noteq> []" by simp
  have q3: "parse_answer ?e ?q ''2024-06-14'' = Inr (Some 739051)" by (simp add: env_defs)
  have q4: "\<exists>r. snd (validate_date ?e ?q ''2024-06-14'') = Inr r \<and> r \<noteq> []"
    by (simp add: env_defs validate_date_def check_range_def)
  then obtain r where r: "snd (validate_date ?e ?q ''2024-06-14'') = Inr r" "r \<noteq> []" by blast
  have "r = [(question_id ?q, Literal ''Not before today'')]"
    using custom_message_verbatim [OF q1 q2, of "AnswerList []" ?e "''2024-06-14''"] q3 r by blast
  moreover have "validate_choice [] ?c (AnswerList []) = [(question_id ?c, Literal ''Pick one or two'')]"
    using custom_message_verbatim [OF c1 c2, of "AnswerList []" ?e "''2024-06-14''"] c3 by blast
  ultimately show ?thesis using r by (simp add: new_question_def)
qed

subsection \<open>The maximum anchored at today, east of Greenwich\<close>

text \<open>
  C2 does not hold of the code. For a datetime question with validation required and the
  maximum anchored at \<^verbatim>\<open>today\<close>, the hour handed to \<^verbatim>\<open>fields.datetime\<close> is \<open>- diff_hour\<close>;
  in every zone whose offset is one hour or more east of Greenwich that hour is negative,
  and \<open>validate_date\<close> leaves with \<^verbatim>\<open>ValueError\<close> for every answer the parser accepts.
\<close>

theorem validate_date_today_max_raises:
  assumes "question_type q = ''datetime''" and "validation_required q"
    and "validation_max_datetime_option q = Some ''today''"
    and "parse_answer e q answer = Inr d"
    and "0 < diff_hour e"
  shows "snd (validate_date e q answer) = Inl ValueError"
  using assms
  by (simp add: validate_date_def bounds_def datetime_bounds_def truthy_def fields_datetime_def
      split: prod.splits)

theorem validate_date_today_max_raises_witness:
  "snd (validate_date (user_env (Some ''Etc/GMT-1'') 63854136000)
     ((new_question 7 ''datetime'')\<lparr>validation_max_datetime_option := Some ''today''\<rparr>)
     ''2024-06-15 10:00:00'') = Inl ValueError"
proof -
  let ?e = "user_env (Some ''Etc/GMT-1'') 63854136000"
  let ?q = "(new_question 7 ''datetime'')\<lparr>validation_max_datetime_option := Some ''today''\<rparr>"
  have 1: "question_type ?q = ''datetime''" by (simp add: new_question_def)
  have 2: "validation_required ?q" by (simp add: new_question_def)
  have 3: "validation_max_datetime_option ?q = Some ''today''" by (simp add: new_question_def)
  have 4: "parse_answer ?e ?q ''2024-06-15 10:00:00'' = Inr (Some 63854128800)"
    by (simp add: env_defs)
  have 5: "0 < diff_hour ?e" by (simp add: env_defs)
  from validate_date_today_max_raises [OF 1 2 3 4 5] show ?thesis .
qed

text \<open>
  C3 does not hold of the code. For a user one hour east of Greenwich, at noon UTC of
  2024-06-15, the bounds of a datetime question with both anchors at \<^verbatim>\<open>today\<close> are not
  resolved: the maximum, which C3 puts at 22:59:59 UTC of that day, is never built and
  the resolution leaves with \<^verbatim>\<open>ValueError\<close>.
\<close>

theorem bounds_today_max_east_of_greenwich:
  "bounds (user_env (Some ''Etc/GMT-1'') 63854136000)
     ((new_question 7 ''datetime'')
        \<lparr>validation_min_datetime_option := Some ''today'',
         validation_max_datetime_option := Some ''today''\<rparr>) = ([], Inl ValueError)"
  by (simp add: env_defs)

text \<open>
  C5 does not hold of the code at this input. The minimum anchor has the unrecognized
  value \<^verbatim>\<open>yesterday\<close> and the maximum is anchored at \<^verbatim>\<open>today\<close>, for a user one hour east
  of Greenwich: the defect is logged, and then the call leaves with \<^verbatim>\<open>ValueError\<close>
  instead of deciding by the maximum alone.
\<close>

theorem validate_date_unknown_min_today_max:
  "validate_date (user_env (Some ''Etc/GMT-1'') 63854136000)
     ((new_question 7 ''datetime'')
        \<lparr>validation_min_datetime_option := Some ''yesterday'',
         validation_max_datetime_option := Some ''today''\<rparr>)
     ''2024-06-15 10:00:00'' =
   ([''Missing information about validation_min_datetime_option: yesterday''], Inl ValueError)"
  by (simp add: env_defs validate_date_def missing_information_def)

subsection \<open>The second added to a stored maximum\<close>

text \<open>
  C7 does not hold of the code at this input. A datetime question has no minimum and the
  stored maximum 2024-06-15 12:00:00, so no second was taken off during resolution; the
  user's zone is UTC. For an answer five seconds above the maximum the message shows
  12:00:01, while the stored maximum itself reads 12:00:00.
\<close>

theorem validate_date_before_explicit_max:
  "validate_date (user_env None 63854136000)
     ((new_question 7 ''datetime'')\<lparr>validation_max_datetime := Some 63854136000\<rparr>)
     ''2024-06-15 12:00:05'' =
   ([], Inr [(7, Translated ''The date needs to be before %(date_max_show)s.''
                   [(''date_max_show'', StrArg ''2024-06-15 12:00:01'')])]) \<and>
   strftime (astimezone (user_timezone (user_env None 63854136000)) 63854136000) =
     ''2024-06-15 12:00:00''"
  by (simp add: env_defs show_defs validate_date_def)

section \<open>Further properties of the date hook\<close>

subsection \<open>Bounds anchored at today\<close>

text \<open>
  With both anchors at \<^verbatim>\<open>today\<close>, the bounds of a question of a kind other than
  \<^verbatim>\<open>datetime\<close> are today's date on both sides, with no shift by the offset. Those of a
  datetime question, in a zone whose offset in whole hours lies between -23 and 0, are:
  as minimum, midnight of today's date moved back by that offset; as maximum, midnight of
  tomorrow's date moved back by that offset, less one second, the second being recorded
  as the delay.
\<close>

theorem bounds_today:
  "(question_type q \<noteq> ''datetime'' \<and> validation_min_date_option q = Some ''today'' \<and>
    validation_max_date_option q = Some ''today'' \<longrightarrow>
      bounds e q = ([], Inr (Some (date_now e), Some (date_now e), 0))) \<and>
   (question_type q = ''datetime'' \<and> validation_min_datetime_option q = Some ''today'' \<and>
    validation_max_datetime_option q = Some ''today'' \<and> - 23 \<le> diff_hour e \<and> diff_hour e \<le> 0 \<longrightarrow>
      bounds e q =
        ([], Inr (Some (86400 * date_now e - 3600 * diff_hour e),
                  Some (86400 * (date_now e + 1) - 3600 * diff_hour e - 1), 1)))"
  by (simp add: bounds_def date_bounds_def datetime_bounds_def truthy_def fields_datetime_def)

theorem bounds_today_witness:
  "bounds (user_env None 63854136000)
     ((new_question 7 ''date'')
        \<lparr>validation_min_date_option := Some ''today'', validation_max_date_option := Some ''today''\<rparr>) =
     ([], Inr (Some 739052, Some 739052, 0)) \<and>
   bounds (user_env (Some ''Etc/GMT+5'') 63854136000)
     ((new_question 7 ''datetime'')
        \<lparr>validation_min_datetime_option := Some ''today'',
         validation_max_datetime_option := Some ''today''\<rparr>) =
     ([], Inr (Some 63854110800, Some 63854197199, 1))"
proof -
  let ?d = "(new_question 7 ''date'')
        \<lparr>validation_min_date_option := Some ''today'', validation_max_date_option := Some ''today''\<rparr>"
  let ?t = "(new_question 7 ''datetime'')
        \<lparr>validation_min_datetime_option := Some ''today'',
         validation_max_datetime_option := Some ''today''\<rparr>"
  let ?u = "user_env None 63854136000"
  let ?w = "user_env (Some ''Etc/GMT+5'') 63854136000"
  have d: "question_type ?d \<noteq> ''datetime'' \<and> validation_min_date_option ?d = Some ''today'' \<and>
           validation_max_date_option ?d = Some ''today''"
    by (simp add: new_question_def)
  have t: "question_type ?t = ''datetime'' \<and> validation_min_datetime_option ?t = Some ''today'' \<and>
           validation_max_datetime_option ?t = Some ''today'' \<and> - 23 \<le> diff_hour ?w \<and> diff_hour ?w \<le> 0"
    by (simp add: new_question_def diff_hour_def utcoffset_def user_timezone_def user_env_def
        fixed_timezone_def truthy_def int_hours_def)
  have n: "date_now ?u = 739052" "date_now ?w = 739052" "diff_hour ?w = - 5"
    by (simp_all add: date_now_def diff_hour_def utcoffset_def user_timezone_def user_env_def
        fixed_timezone_def truthy_def int_hours_def)
  from bounds_today [of ?d ?u] bounds_today [of ?t ?w] d t n show ?thesis by simp
qed

subsection \<open>The one exception of a parsed answer\<close>

lemma check_range_returns:
  "\<exists>r. check_range q tz b nb mn mx (Some a) = Inr r \<and> (r = [] \<or> (\<exists>m. r = [(question_id q, m)]))"
  by (simp add: check_range_def)

lemma date_bounds_returns: "\<exists>log mn mx nb. date_bounds q n = (log, Inr (mn, mx, nb))"
  by (simp add: date_bounds_def split: prod.splits)

lemma datetime_bounds_returns:
  assumes "validation_max_datetime_option q = Some ''today'' \<longrightarrow> - 23 \<le> h \<and> h \<le> 0"
  shows "\<exists>log mn mx nb. datetime_bounds q n h = (log, Inr (mn, mx, nb))"
proof (cases "validation_max_datetime_option q = Some ''today''")
  case True
  with assms have "fields_datetime (n + 1) (- h) = Inr (86400 * (n + 1) + 3600 * (- h))"
    by (simp add: fields_datetime_def)
  with True show ?thesis
    by (simp add: datetime_bounds_def truthy_def split: prod.splits)
next
  case False
  then show ?thesis
    by (simp add: datetime_bounds_def split: prod.splits)
qed

text \<open>
  When the parser returns a value, \<open>validate_date\<close> returns a dictionary, empty or with
  the question's identifier as its one key, unless the question is a datetime question
  with validation required and the maximum anchored at \<^verbatim>\<open>today\<close> in a zone whose offset in
  whole hours lies outside -23 to 0.
\<close>

theorem validate_date_returns:
  assumes "parse_answer e q answer = Inr (Some a)"
    and "question_type q = ''datetime'' \<and> validation_required q \<and>
         validation_max_datetime_option q = Some ''today'' \<longrightarrow>
           - 23 \<le> diff_hour e \<and> diff_hour e \<le> 0"
  shows "\<exists>r. snd (validate_date e q answer) = Inr r \<and>
             (r = [] \<or> (\<exists>m. r = [(question_id q, m)]))"
proof (cases "validation_required q")
  case False
  with assms(1) show ?thesis by (simp add: validate_date_def)
next
  case True
  have "\<exists>log mn mx nb. bounds e q = (log, Inr (mn, mx, nb))"
  proof (cases "question_type q = ''datetime''")
    case dt: True
    with assms(2) True
    have "validation_max_datetime_option q = Some ''today'' \<longrightarrow>
            - 23 \<le> diff_hour e \<and> diff_hour e \<le> 0" by simp
    from datetime_bounds_returns [OF this] dt show ?thesis by (simp add: bounds_def)
  next
    case False
    with date_bounds_returns show ?thesis by (simp add: bounds_def)
  qed
  then obtain log mn mx nb where b: "bounds e q = (log, Inr (mn, mx, nb))" by blast
  from check_range_returns [of q "user_timezone e" "question_type q = ''datetime''" nb mn mx a]
  show ?thesis using assms(1) True b by (simp add: validate_date_def)
qed

theorem validate_date_returns_witness:
  "snd (validate_date (user_env (Some ''Etc/GMT+5'') 63854136000)
     ((new_question 7 ''datetime'')\<lparr>validation_max_datetime_option := Some ''today''\<rparr>)
     ''2024-06-15 10:00:00'') = Inr []"
proof -
  let ?e = "user_env (Some ''Etc/GMT+5'') 63854136000"
  let ?q = "(new_question 7 ''datetime'')\<lparr>validation_max_datetime_option := Some ''today''\<rparr>"
  have 1: "parse_answer ?e ?q ''2024-06-15 10:00:00'' = Inr (Some 63854128800)"
    by (simp add: env_defs)
  have 2: "question_type ?q = ''datetime'' \<and> validation_required ?q \<and>
         validation_max_datetime_option ?q = Some ''today'' \<longrightarrow>
           - 23 \<le> diff_hour ?e \<and> diff_hour ?e \<le> 0"
    by (simp add: env_defs)
  have 3: "snd (validate_date ?e ?q ''2024-06-15 10:00:00'') \<noteq> Inr [(7, m)]" for m
    by (simp add: env_defs validate_date_def check_range_def)
  from validate_date_returns [OF 1 2] 3 show ?thesis
    by (auto simp add: new_question_def)
qed

subsection \<open>An unrecognized anchor\<close>

lemma check_range_frame:
  "check_range (q\<lparr>validation_min_datetime_option := a, validation_min_datetime := b\<rparr>) tz dt nb mn mx d =
   check_range q tz dt nb mn mx d"
  "check_range (q\<lparr>validation_max_datetime_option := a, validation_max_datetime := b\<rparr>) tz dt nb mn mx d =
   check_range q tz dt nb mn mx d"
  "check_range (q\<lparr>validation_min_date_option := a, validation_min_date := b\<rparr>) tz dt nb mn mx d =
   check_range q tz dt nb mn mx d"
  "check_range (q\<lparr>validation_max_date_option := a, validation_max_date := b\<rparr>) tz dt nb mn mx d =
   check_range q tz dt nb mn mx d"
  by (cases d; simp add: check_range_def)+

lemma bounds_datetime_unknown_min:
  assumes "question_type q = ''datetime''" and "truthy (validation_min_datetime_option q)"
    and "validation_min_datetime_option q \<noteq> Some ''today''"
  shows "bounds e q =
           (missing_information ''validation_min_datetime_option''
              (validation_min_datetime_option q) #
            fst (bounds e (q\<lparr>validation_min_datetime_option := None,
                             validation_min_datetime := None\<rparr>)),
            snd (bounds e (q\<lparr>validation_min_datetime_option := None,
                             validation_min_datetime := None\<rparr>)))"
  using assms
  by (simp add: bounds_def datetime_bounds_def truthy_def split: sum.splits)

lemma bounds_datetime_unknown_max:
  assumes "question_type q = ''datetime''" and "truthy (validation_max_datetime_option q)"
    and "validation_max_datetime_option q \<noteq> Some ''today''"
  shows "bounds e q =
           (fst (bounds e (q\<lparr>validation_max_datetime_option := None,
                             validation_max_datetime := None\<rparr>)) @
            [missing_information ''validation_max_datetime_option''
               (validation_max_datetime_option q)],
            snd (bounds e (q\<lparr>validation_max_datetime_option := None,
                             validation_max_datetime := None\<rparr>)))"
  using assms
  by (simp add: bounds_def datetime_bounds_def truthy_def split: prod.splits)

lemma bounds_date_unknown_min:
  assumes "question_type q \<noteq> ''datetime''" and "truthy (validation_min_date_option q)"
    and "validation_min_date_option q \<noteq> Some ''today''"
  shows "bounds e q =
           (missing_information ''validation_min_date_option'' (validation_min_date_option q) #
            fst (bounds e (q\<lparr>validation_min_date_option := None, validation_min_date := None\<rparr>)),
            snd (bounds e (q\<lparr>validation_min_date_option := None, validation_min_date := None\<rparr>)))"
  using assms
  by (simp add: bounds_def date_bounds_def truthy_def split: prod.splits)

lemma bounds_date_unknown_max:
  assumes "question_type q \<noteq> ''datetime''" and "truthy (validation_max_date_option q)"
    and "validation_max_date_option q \<noteq> Some ''today''"
  shows "bounds e q =
           (fst (bounds e (q\<lparr>validation_max_date_option := None, validation_max_date := None\<rparr>)) @
            [missing_information ''validation_max_date_option'' (validation_max_date_option q)],
            snd (bounds e (q\<lparr>validation_max_date_option := None, validation_max_date := None\<rparr>)))"
  using assms
  by (simp add: bounds_def date_bounds_def truthy_def split: prod.splits)

text \<open>What the call returns once the answer is parsed, in terms of the bounds.\<close>

lemma validate_date_as_bounds:
  assumes "validation_required q" and "parse_answer e q answer = Inr d"
  shows "validate_date e q answer =
           (fst (bounds e q),
            case snd (bounds e q) of
              Inl err \<Rightarrow> Inl err
            | Inr (mn, mx, nb) \<Rightarrow>
                check_range q (user_timezone e) (question_type q = ''datetime'') nb mn mx d)"
  using assms by (simp add: validate_date_def split: prod.splits sum.splits)

lemma fail_open_prepend:
  assumes "validation_required q" and "parse_answer e q answer = Inr d"
    and "validation_required q' = validation_required q"
    and "parse_answer e q' answer = parse_answer e q answer"
    and "question_type q' = question_type q"
    and "\<And>tz dt nb mn mx. check_range q' tz dt nb mn mx d = check_range q tz dt nb mn mx d"
    and "bounds e q = (line # fst (bounds e q'), snd (bounds e q'))"
  shows "validate_date e q answer =
           (line # fst (validate_date e q' answer), snd (validate_date e q' answer))"
proof -
  have 1: "validation_required q'" using assms by simp
  have 2: "parse_answer e q' answer = Inr d" using assms by simp
  show ?thesis
    unfolding validate_date_as_bounds [OF assms(1,2)] validate_date_as_bounds [OF 1 2]
    using assms(5,6,7) by (simp split: sum.splits)
qed

lemma fail_open_append:
  assumes "validation_required q" and "parse_answer e q answer = Inr d"
    and "validation_required q' = validation_required q"
    and "parse_answer e q' answer = parse_answer e q answer"
    and "question_type q' = question_type q"
    and "\<And>tz dt nb mn mx. check_range q' tz dt nb mn mx d = check_range q tz dt nb mn mx d"
    and "bounds e q = (fst (bounds e q') @ [line], snd (bounds e q'))"
  shows "validate_date e q answer =
           (fst (validate_date e q' answer) @ [line], snd (validate_date e q' answer))"
proof -
  have 1: "validation_required q'" using assms by simp
  have 2: "parse_answer e q' answer = Inr d" using assms by simp
  show ?thesis
    unfolding validate_date_as_bounds [OF assms(1,2)] validate_date_as_bounds [OF 1 2]
    using assms(5,6,7) by (simp split: sum.splits)
qed

text \<open>
  With validation required and the answer parsed, an anchor that is set to a value other
  than \<^verbatim>\<open>today\<close> changes one thing only: the call logs one line that names the field and
  its value. Everything else, the dictionary returned or the exception raised and the
  other lines logged, is what the same question gets with that side's anchor and stored
  bound both unset. The line comes first for a minimum and last for a maximum.
\<close>

theorem unknown_anchor_fail_open:
  assumes "validation_required q" and "parse_answer e q answer = Inr d"
  shows
    "(question_type q = ''datetime'' \<and> truthy (validation_min_datetime_option q) \<and>
      validation_min_datetime_option q \<noteq> Some ''today'' \<longrightarrow>
        validate_date e q answer =
          (missing_information ''validation_min_datetime_option''
             (validation_min_datetime_option q) #
           fst (validate_date e
                  (q\<lparr>validation_min_datetime_option := None, validation_min_datetime := None\<rparr>)
                  answer),
           snd (validate_date e
                  (q\<lparr>validation_min_datetime_option := None, validation_min_datetime := None\<rparr>)
                  answer))) \<and>
     (question_type q = ''datetime'' \<and> truthy (validation_max_datetime_option q) \<and>
      validation_max_datetime_option q \<noteq> Some ''today'' \<longrightarrow>
        validate_date e q answer =
          (fst (validate_date e
                  (q\<lparr>validation_max_datetime_option := None, validation_max_datetime := None\<rparr>)
                  answer) @
           [missing_information ''validation_max_datetime_option''
              (validation_max_datetime_option q)],
           snd (validate_date e
                  (q\<lparr>validation_max_datetime_option := None, validation_max_datetime := None\<rparr>)
                  answer))) \<and>
     (question_type q \<noteq> ''datetime'' \<and> truthy (validation_min_date_option q) \<and>
      validation_min_date_option q \<noteq> Some ''today'' \<longrightarrow>
        validate_date e q answer =
          (missing_information ''validation_min_date_option'' (validation_min_date_option q) #
           fst (validate_date e
                  (q\<lparr>validation_min_date_option := None, validation_min_date := None\<rparr>) answer),
           snd (validate_date e
                  (q\<lparr>validation_min_date_option := None, validation_min_date := None\<rparr>) answer))) \<and>
     (question_type q \<noteq> ''datetime'' \<and> truthy (validation_max_date_option q) \<and>
      validation_max_date_option q \<noteq> Some ''today'' \<longrightarrow>
        validate_date e q answer =
          (fst (validate_date e
                  (q\<lparr>validation_max_date_option := None, validation_max_date := None\<rparr>) answer) @
           [missing_information ''validation_max_date_option'' (validation_max_date_option q)],
           snd (validate_date e
                  (q\<lparr>validation_max_date_option := None, validation_max_date := None\<rparr>) answer)))"
proof (intro conjI impI)
  assume h: "question_type q = ''datetime'' \<and> truthy (validation_min_datetime_option q) \<and>
      validation_min_datetime_option q \<noteq> Some ''today''"
  show "validate_date e q answer =
          (missing_information ''validation_min_datetime_option''
             (validation_min_datetime_option q) #
           fst (validate_date e
                  (q\<lparr>validation_min_datetime_option := None, validation_min_datetime := None\<rparr>)
                  answer),
           snd (validate_date e
                  (q\<lparr>validation_min_datetime_option := None, validation_min_datetime := None\<rparr>)
                  answer))"
    by (rule fail_open_prepend [OF assms])
       (use h in \<open>simp_all add: parse_answer_def check_range_frame bounds_datetime_unknown_min\<close>)
next
  assume h: "question_type q = ''datetime'' \<and> truthy (validation_max_datetime_option q) \<and>
      validation_max_datetime_option q \<noteq> Some ''today''"
  show "validate_date e q answer =
          (fst (validate_date e
                  (q\<lparr>validation_max_datetime_option := None, validation_max_datetime := None\<rparr>)
                  answer) @
           [missing_information ''validation_max_datetime_option''
              (validation_max_datetime_option q)],
           snd (validate_date e
                  (q\<lparr>validation_max_datetime_option := None, validation_max_datetime := None\<rparr>)
                  answer))"
    by (rule fail_open_append [OF assms])
       (use h in \<open>simp_all add: parse_answer_def check_range_frame bounds_datetime_unknown_max\<close>)
next
  assume h: "question_type q \<noteq> ''datetime'' \<and> truthy (validation_min_date_option q) \<and>
      validation_min_date_option q \<noteq> Some ''today''"
  show "validate_date e q answer =
          (missing_information ''validation_min_date_option'' (validation_min_date_option q) #
           fst (validate_date e
                  (q\<lparr>validation_min_date_option := None, validation_min_date := None\<rparr>) answer),
           snd (validate_date e
                  (q\<lparr>validation_min_date_option := None, validation_min_date := None\<rparr>) answer))"
    by (rule fail_open_prepend [OF assms])
       (use h in \<open>simp_all add: parse_answer_def check_range_frame bounds_date_unknown_min\<close>)
next
  assume h: "question_type q \<noteq> ''datetime'' \<and> truthy (validation_max_date_option q) \<and>
      validation_max_date_option q \<noteq> Some ''today''"
  show "validate_date e q answer =
          (fst (validate_date e
                  (q\<lparr>validation_max_date_option := None, validation_max_date := None\<rparr>) answer) @
           [missing_information ''validation_max_date_option'' (validation_max_date_option q)],
           snd (validate_date e
                  (q\<lparr>validation_max_date_option := None, validation_max_date := None\<rparr>) answer))"
    by (rule fail_open_append [OF assms])
       (use h in \<open>simp_all add: parse_answer_def check_range_frame bounds_date_unknown_max\<close>)
qed

theorem unknown_anchor_fail_open_witness:
  "validate_date (user_env None 63854136000)
     ((new_question 7 ''date'')
        \<lparr>validation_min_date_option := Some ''tomorrow'', validation_max_date := Some 739052\<rparr>)
     ''2024-06-20'' =
   ([''Missing information about validation_min_date_option: tomorrow''],
    Inr [(7, Translated ''The date needs to be before %(date_max_show)s.''
               [(''date_max_show'', DateArg 739053)])])"
proof -
  let ?e = "user_env None 63854136000"
  let ?q = "(new_question 7 ''date'')
        \<lparr>validation_min_date_option := Some ''tomorrow'', validation_max_date := Some 739052\<rparr>"
  have 1: "validation_required ?q" by (simp add: new_question_def)
  have 2: "parse_answer ?e ?q ''2024-06-20'' = Inr (Some 739057)" by (simp add: env_defs)
  have 3: "question_type ?q \<noteq> ''datetime'' \<and> truthy (validation_min_date_option ?q) \<and>
           validation_min_date_option ?q \<noteq> Some ''today''"
    by (simp add: new_question_def truthy_def)
  have 4: "validate_date ?e
             (?q\<lparr>validation_min_date_option := None, validation_min_date := None\<rparr>) ''2024-06-20'' =
           ([], Inr [(7, Translated ''The date needs to be before %(date_max_show)s.''
               [(''date_max_show'', DateArg 739053)])])"
    by (simp add: env_defs validate_date_def check_range_def msg_or_def date_max_show_def)
  from unknown_anchor_fail_open [OF 1 2] 3 4 show ?thesis
    by (simp add: missing_information_def new_question_def)
qed

subsection \<open>What a generated message shows\<close>

text \<open>
  Without an error message of the question's own: below the minimum or above the maximum
  of two bounds, and below a minimum standing alone, a date question is shown the minimum
  less one day and the maximum plus one day, and a datetime question is shown each bound
  on the wall clock of the user's zone, the maximum after the delay of the resolution is
  added back. Above a maximum standing alone, a date question is shown the maximum plus
  one day.
\<close>

theorem check_range_display:
  assumes "validation_error_msg q = None"
  shows
    "(a < lo \<or> hi < a \<longrightarrow>
        check_range q tz is_datetime nb (Some lo) (Some hi) (Some a) =
          Inr [(question_id q,
                Translated
                  ''The date needs to be between %(date_min_show)s and %(date_max_show)s.''
                  [(''date_min_show'',
                    if is_datetime then StrArg (strftime (lo + tz lo)) else DateArg (lo - 1)),
                   (''date_max_show'',
                    if is_datetime then StrArg (strftime (hi + nb + tz (hi + nb)))
                    else DateArg (hi + 1))])]) \<and>
     (a < lo \<longrightarrow>
        check_range q tz is_datetime nb (Some lo) None (Some a) =
          Inr [(question_id q,
                Translated ''The date needs to be after %(date_min_show)s.''
                  [(''date_min_show'',
                    if is_datetime then StrArg (strftime (lo + tz lo)) else DateArg (lo - 1))])]) \<and>
     (hi < a \<longrightarrow>
        check_range q tz False nb None (Some hi) (Some a) =
          Inr [(question_id q,
                Translated ''The date needs to be before %(date_max_show)s.''
                  [(''date_max_show'', DateArg (hi + 1))])])"
  using assms
  by (auto simp add: check_range_def msg_or_def date_min_show_def date_max_show_def
      astimezone_def)

theorem check_range_display_witness:
  "check_range (new_question 7 ''datetime'') (fixed_timezone ''Etc/GMT+5'') True 1
     (Some 63854110800) (Some 63854197199) (Some 63854197200) =
   Inr [(7, Translated
              ''The date needs to be between %(date_min_show)s and %(date_max_show)s.''
              [(''date_min_show'', StrArg ''2024-06-15 00:00:00''),
               (''date_max_show'', StrArg ''2024-06-16 00:00:00'')])]"
proof -
  have 1: "validation_error_msg (new_question 7 ''datetime'') = None"
    by (simp add: new_question_def)
  have 2: "strftime (63854110800 + fixed_timezone ''Etc/GMT+5'' 63854110800) = ''2024-06-15 00:00:00''"
    by (simp add: fixed_timezone_def strftime_def ord2ymd_def pad2_def pad4_def digit_def Let_def
        DAYS_IN_MONTH_def DAYS_BEFORE_MONTH_def)
  have 3: "strftime (63854197199 + 1 + fixed_timezone ''Etc/GMT+5'' (63854197199 + 1)) = ''2024-06-16 00:00:00''"
    by (simp add: fixed_timezone_def strftime_def ord2ymd_def pad2_def pad4_def digit_def Let_def
        DAYS_IN_MONTH_def DAYS_BEFORE_MONTH_def)
  from check_range_display [OF 1, of 63854197200 63854110800 63854197199
      "fixed_timezone ''Etc/GMT+5''" True 1] 2 3
  show ?thesis by (simp add: new_question_def)
qed

text \<open>The text of \<open>strftime\<close> has the shape \<^verbatim>\<open>YYYY-MM-DD HH:MM:SS\<close>.\<close>

theorem strftime_shape:
  "length (strftime d) = 19 \<and> strftime d ! 4 = CHR ''-'' \<and> strftime d ! 7 = CHR ''-'' \<and>
   strftime d ! 10 = CHR '' '' \<and> strftime d ! 13 = CHR '':'' \<and> strftime d ! 16 = CHR '':''"
  by (simp add: strftime_def pad2_def pad4_def Let_def split: prod.splits)

end
